theory Spec2Isabelle
  imports Complex_Main
begin

section \<open>Errors and Python indexing\<close>

text \<open>
  Every exception the modelled code can raise is a value. \<open>ValueError\<close> carries its
  message, because \<open>raise_if\<close>, \<open>raise_log\<close>, pandas and numpy all raise it and only the
  message tells them apart.
\<close>

datatype error =
    ValueError string
  | AttributeError string
  | KeyError string
  | IndexError string
  | TypeError string
  | AssertionError
  | LibraryError string

text \<open>Python list indexing: a negative index counts from the end, anything else raises.\<close>

definition py_get :: "'a list \<Rightarrow> int \<Rightarrow> error + 'a" where
  "py_get xs i =
     (if 0 \<le> i \<and> i < int (length xs) then Inr (xs ! nat i)
      else if i < 0 \<and> - int (length xs) \<le> i then Inr (xs ! nat (int (length xs) + i))
      else Inl (IndexError ''list index out of range''))"

text \<open>\<open>str(n)\<close> for a Python integer: decimal digits, with a leading minus sign.\<close>

definition digit_char :: "nat \<Rightarrow> char" where
  "digit_char d = ''0123456789'' ! (d mod 10)"

fun str_nat :: "nat \<Rightarrow> string" where
  "str_nat n = (if n < 10 then [digit_char n] else str_nat (n div 10) @ [digit_char (n mod 10)])"

definition str_int :: "int \<Rightarrow> string" where
  "str_int i = (if i < 0 then CHR ''-'' # str_nat (nat (- i)) else str_nat (nat i))"

section \<open>Series and data frames\<close>

text \<open>
  A cell is a float or NaN; no arithmetic is ever done on cells, only the test for NaN, so
  a cell is \<open>real option\<close> with \<open>None\<close> for NaN. Time stamps are integers. A
  \<open>TimeSeries\<close> has a time index, named components and one row of cells per time stamp;
  \<open>pd_dataframe\<close> hands the same three things over as a pandas frame.
\<close>

type_synonym cell = "real option"

record time_series =
  time_index :: "int list"
  columns :: "string list"
  ts_values :: "cell list list"

record data_frame =
  df_index :: "int list"
  df_columns :: "string list"
  df_rows :: "cell list list"

definition pd_dataframe :: "time_series \<Rightarrow> data_frame" where
  "pd_dataframe ts = \<lparr>df_index = time_index ts, df_columns = columns ts, df_rows = ts_values ts\<rparr>"

text \<open>
  \<open>[c] if c else None\<close>: \<open>bool(ts)\<close> of a \<open>TimeSeries\<close> is \<open>len(ts) > 0\<close>, and
  \<open>None\<close> is falsy.
\<close>

definition wrap_covariate :: "time_series option \<Rightarrow> time_series list option" where
  "wrap_covariate c =
     (case c of None \<Rightarrow> None | Some ts \<Rightarrow> if time_index ts = [] then None else Some [ts])"

text \<open>
  \<open>df.shift(periods)\<close> without a frequency moves the rows and keeps the index: the row
  at position \<open>i\<close> becomes the old row at \<open>i - periods\<close>, and NaN where there is none.
\<close>

definition shift :: "data_frame \<Rightarrow> int \<Rightarrow> data_frame" where
  "shift df periods =
     (let n = length (df_rows df);
          nan_row = replicate (length (df_columns df)) None
      in df\<lparr>df_rows :=
           (if 0 \<le> periods
            then take n (replicate (nat periods) nan_row @ df_rows df)
            else drop (nat (- periods)) (df_rows df)
                   @ replicate (min n (nat (- periods))) nan_row)\<rparr>)"

text \<open>\<open>df.rename(columns={c: f(c) for c in df.columns})\<close>.\<close>

definition rename_columns :: "(string \<Rightarrow> string) \<Rightarrow> data_frame \<Rightarrow> data_frame" where
  "rename_columns f df = df\<lparr>df_columns := map f (df_columns df)\<rparr>"

text \<open>
  \<open>pd.concat(dfs, axis=1)\<close>: an outer join on the index. Frames that all carry the same
  index keep it; otherwise the result is indexed by the sorted union, and a frame that has
  no row at a label contributes NaN there. (The indexes of a \<open>TimeSeries\<close> are strictly
  increasing, which is what pandas needs for the join.) An empty list raises.
\<close>

definition union_index :: "int list list \<Rightarrow> int list" where
  "union_index idxs =
     (case idxs of [] \<Rightarrow> []
      | i # rest \<Rightarrow> if list_all (\<lambda>j. j = i) rest then i else sort (remdups (concat idxs)))"

definition row_at :: "data_frame \<Rightarrow> int \<Rightarrow> cell list" where
  "row_at df t =
     (case map_of (zip (df_index df) (df_rows df)) t of
        Some r \<Rightarrow> r
      | None \<Rightarrow> replicate (length (df_columns df)) None)"

definition concat_axis1 :: "data_frame list \<Rightarrow> error + data_frame" where
  "concat_axis1 dfs =
     (if dfs = [] then Inl (ValueError ''No objects to concatenate'')
      else let idx = union_index (map df_index dfs)
           in Inr \<lparr>df_index = idx,
                   df_columns = concat (map df_columns dfs),
                   df_rows = map (\<lambda>t. concat (map (\<lambda>df. row_at df t) dfs)) idx\<rparr>)"

text \<open>\<open>df.dropna()\<close>: the rows without a NaN, with their labels.\<close>

definition complete_row :: "cell list \<Rightarrow> bool" where
  "complete_row r = list_all (\<lambda>c. c \<noteq> None) r"

definition dropna :: "data_frame \<Rightarrow> data_frame" where
  "dropna df =
     (let kept = filter (\<lambda>p. complete_row (snd p)) (zip (df_index df) (df_rows df))
      in \<lparr>df_index = map fst kept, df_columns = df_columns df, df_rows = map snd kept\<rparr>)"

text \<open>
  \<open>pd.concat(Xs, axis=0)\<close>: the rows one frame after the other. Frames with the same
  columns are stacked as they are; otherwise the columns are the union in order of first
  appearance and a frame without a column has NaN there.
\<close>

definition cell_of :: "data_frame \<Rightarrow> cell list \<Rightarrow> string \<Rightarrow> cell" where
  "cell_of df r c = (case map_of (zip (df_columns df) r) c of Some v \<Rightarrow> v | None \<Rightarrow> None)"

definition concat_axis0 :: "data_frame list \<Rightarrow> error + data_frame" where
  "concat_axis0 dfs =
     (case dfs of
        [] \<Rightarrow> Inl (ValueError ''No objects to concatenate'')
      | d # rest \<Rightarrow>
          if list_all (\<lambda>e. df_columns e = df_columns d) rest
          then Inr \<lparr>df_index = concat (map df_index dfs),
                    df_columns = df_columns d,
                    df_rows = concat (map df_rows dfs)\<rparr>
          else let cols = remdups (concat (map df_columns dfs))
               in Inr \<lparr>df_index = concat (map df_index dfs),
                       df_columns = cols,
                       df_rows = concat (map (\<lambda>e. map (\<lambda>r. map (cell_of e r) cols) (df_rows e)) dfs)\<rparr>)"

section \<open>The lagged design matrix\<close>

text \<open>
  \<open>model.lags\<close> is a dictionary with some of the keys \<open>"target"\<close>, \<open>"past"\<close> and
  \<open>"future"\<close>, each a list of integer lags.
\<close>

record lags_dict =
  lags_target :: "int list option"
  lags_past :: "int list option"
  lags_future :: "int list option"

text \<open>The target-lag frames: one shifted, renamed copy of the target per lag.\<close>

definition target_lag_frames :: "lags_dict \<Rightarrow> data_frame \<Rightarrow> data_frame list" where
  "target_lag_frames lags df_target =
     (case lags_target lags of
        None \<Rightarrow> []
      | Some ls \<Rightarrow>
          map (\<lambda>lag. rename_columns (\<lambda>c. c @ ''_target_lag'' @ str_int lag)
                       (shift df_target (- lag))) ls)"

text \<open>
  The covariate-lag frames of one kind (\<open>cov_type\<close> is \<open>past\<close> or \<open>fut\<close>). Lags that
  are absent or empty are skipped; lags without the covariate reach \<open>None.shift\<close>.
\<close>

definition covariate_lag_frames ::
  "string \<Rightarrow> data_frame option \<Rightarrow> int list option \<Rightarrow> error + data_frame list" where
  "covariate_lag_frames cov_type df_cov lags =
     (case lags of
        None \<Rightarrow> Inr []
      | Some ls \<Rightarrow>
          if ls = [] then Inr []
          else (case df_cov of
                  None \<Rightarrow> Inl (AttributeError ''NoneType object has no attribute shift'')
                | Some df \<Rightarrow>
                    Inr (map (\<lambda>lag. rename_columns
                                      (\<lambda>c. c @ ''_'' @ cov_type @ ''_cov_lag'' @ str_int lag)
                                      (shift df (- lag))) ls)))"

text \<open>One pass of the loop over the series: all lag frames side by side, NaN rows dropped.\<close>

definition series_shap_X ::
  "lags_dict \<Rightarrow> time_series \<Rightarrow> time_series option \<Rightarrow> time_series option \<Rightarrow> error + data_frame" where
  "series_shap_X lags target_ts past_cov future_cov =
     (case covariate_lag_frames ''past'' (map_option pd_dataframe past_cov) (lags_past lags) of
        Inl e \<Rightarrow> Inl e
      | Inr ps \<Rightarrow>
         (case covariate_lag_frames ''fut'' (map_option pd_dataframe future_cov) (lags_future lags) of
            Inl e \<Rightarrow> Inl e
          | Inr fs \<Rightarrow>
             (case concat_axis1 (target_lag_frames lags (pd_dataframe target_ts) @ ps @ fs) of
                Inl e \<Rightarrow> Inl e
              | Inr df \<Rightarrow> Inr (dropna df))))"

text \<open>
  The arguments are either one series with its optional covariates, or sequences of them.
  \<open>covariates[idx] if covariates else None\<close>: a missing or empty list gives \<open>None\<close>, an
  index past the end raises.
\<close>

datatype series_input =
    Single time_series "time_series option" "time_series option"
  | Sequence "time_series list" "time_series list option" "time_series list option"

definition covariate_at :: "time_series list option \<Rightarrow> nat \<Rightarrow> error + time_series option" where
  "covariate_at covs idx =
     (case covs of
        None \<Rightarrow> Inr None
      | Some cs \<Rightarrow>
          if cs = [] then Inr None
          else if idx < length cs then Inr (Some (cs ! idx))
          else Inl (IndexError ''list index out of range''))"

fun shap_X_per_series ::
  "lags_dict \<Rightarrow> time_series list option \<Rightarrow> time_series list option \<Rightarrow> nat \<Rightarrow> time_series list
     \<Rightarrow> error + data_frame list" where
  "shap_X_per_series lags past future idx [] = Inr []"
| "shap_X_per_series lags past future idx (target_ts # rest) =
     (case covariate_at past idx of
        Inl e \<Rightarrow> Inl e
      | Inr p \<Rightarrow>
         (case covariate_at future idx of
            Inl e \<Rightarrow> Inl e
          | Inr f \<Rightarrow>
             (case series_shap_X lags target_ts p f of
                Inl e \<Rightarrow> Inl e
              | Inr X \<Rightarrow>
                 (case shap_X_per_series lags past future (Suc idx) rest of
                    Inl e \<Rightarrow> Inl e
                  | Inr Xs \<Rightarrow> Inr (X # Xs)))))"

text \<open>
  \<open>_create_RegressionModel_shap_X\<close>. A single series is wrapped into one-element lists
  (a covariate that is \<open>None\<close> or empty becomes \<open>None\<close>). With \<open>n_samples\<close> set the code
  calls \<open>shap.utils.sample(n_samples, X)\<close>, whose parameters are \<open>(X, nsamples)\<close>: the
  library is handed an integer where it expects the matrix and raises. Every call in the
  repository passes \<open>None\<close>.
\<close>

definition create_RegressionModel_shap_X ::
  "lags_dict \<Rightarrow> series_input \<Rightarrow> nat option \<Rightarrow> error + data_frame" where
  "create_RegressionModel_shap_X lags inp n_samples =
     (let (targets, past, future) =
            (case inp of
               Single ts pc fc \<Rightarrow> ([ts], wrap_covariate pc, wrap_covariate fc)
             | Sequence tss pcs fcs \<Rightarrow> (tss, pcs, fcs))
      in case shap_X_per_series lags past future 0 targets of
           Inl e \<Rightarrow> Inl e
         | Inr Xs \<Rightarrow>
            (case concat_axis0 Xs of
               Inl e \<Rightarrow> Inl e
             | Inr X \<Rightarrow>
                (case n_samples of
                   None \<Rightarrow> Inr X
                 | Some n \<Rightarrow>
                     if n = 0 then Inr X
                     else Inl (LibraryError ''shap.utils.sample(n_samples, X)''))))"

subsection \<open>The documented layout\<close>



















subsection \<open>The order of the training matrix\<close>







section \<open>Estimators, attribution engines and their results\<close>

text \<open>
  The fitted scikit-learn estimator \<open>model.model\<close> is either an estimator of its own,
  with its \<open>multioutput\<close> tag and whether it is a tree model, or a
  \<open>MultiOutputRegressor\<close> holding one estimator per output in \<open>estimators_\<close> (its
  \<open>multioutput\<close> tag is the default, false).
\<close>

datatype sk_estimator =
    Estimator string bool bool
  | MultiOutputRegressor "sk_estimator list"

fun get_tags_multioutput :: "sk_estimator \<Rightarrow> bool" where
  "get_tags_multioutput (Estimator name multi tree) = multi"
| "get_tags_multioutput (MultiOutputRegressor ests) = False"

fun tree_based :: "sk_estimator \<Rightarrow> bool" where
  "tree_based (Estimator name multi tree) = tree"
| "tree_based (MultiOutputRegressor ests) = False"

fun is_MultiOutputRegressor :: "sk_estimator \<Rightarrow> bool" where
  "is_MultiOutputRegressor (Estimator name multi tree) = False"
| "is_MultiOutputRegressor (MultiOutputRegressor ests) = True"

fun estimators :: "sk_estimator \<Rightarrow> error + sk_estimator list" where
  "estimators (Estimator name multi tree) = Inl (AttributeError ''estimators_'')"
| "estimators (MultiOutputRegressor ests) = Inr ests"

text \<open>
  An attribution engine records the algorithm the library chose, the estimator it wraps
  and its background data. \<open>shap.Explainer\<close> chooses the tree algorithm for a tree model;
  \<open>shap.TreeExplainer\<close> is the tree algorithm without a background.
\<close>

datatype algorithm = Tree | Other

datatype explainer = Explainer algorithm sk_estimator "data_frame option"

definition shap_Explainer :: "sk_estimator \<Rightarrow> data_frame \<Rightarrow> explainer" where
  "shap_Explainer est bg = Explainer (if tree_based est then Tree else Other) est (Some bg)"

definition shap_TreeExplainer :: "sk_estimator \<Rightarrow> explainer" where
  "shap_TreeExplainer est = Explainer Tree est None"

fun is_Tree :: "explainer \<Rightarrow> bool" where
  "is_Tree (Explainer a est bg) = (a = Tree)"

fun wrapped :: "explainer \<Rightarrow> sk_estimator" where
  "wrapped (Explainer a est bg) = est"

text \<open>
  Arrays carry their shape and their entries in row-major order. \<open>index_last a k\<close> is
  \<open>a[..., k]\<close> with Python's rule for \<open>k\<close>; \<open>ravel\<close> flattens.
\<close>

record ndarray =
  shape :: "nat list"
  entries :: "real list"

definition index_last :: "ndarray \<Rightarrow> int \<Rightarrow> error + ndarray" where
  "index_last a k =
     (case rev (shape a) of
        [] \<Rightarrow> Inl (IndexError ''too many indices for array'')
      | d # ds \<Rightarrow>
          let j = (if k < 0 then int d + k else k)
          in if 0 \<le> j \<and> j < int d
             then Inr \<lparr>shape = rev ds,
                       entries = map (\<lambda>i. entries a ! (i * d + nat j)) [0..<prod_list ds]\<rparr>
             else Inl (IndexError ''index is out of bounds''))"

definition ravel :: "ndarray \<Rightarrow> ndarray" where
  "ravel a = \<lparr>shape = [prod_list (shape a)], entries = entries a\<rparr>"

text \<open>
  An \<open>Explanation\<close>: the attribution values (rows by features, and a third axis of
  outputs when the engine explains a multi-output model), the base values (per row, and
  per output likewise), the feature names, and the time index the code attaches.
  \<open>slice_output e k\<close> is \<open>e[:, :, k]\<close>: it needs the third axis and takes position
  \<open>k\<close> of the output axis of the values and of the base values.
\<close>

record explanation =
  ex_values :: ndarray
  base_values :: ndarray
  feature_names :: "string list"
  ex_time_index :: "int list option"

definition slice_output :: "explanation \<Rightarrow> int \<Rightarrow> error + explanation" where
  "slice_output e k =
     (if length (shape (ex_values e)) \<noteq> 3 then Inl (IndexError ''too many indices for array'')
      else case index_last (ex_values e) k of
             Inl err \<Rightarrow> Inl err
           | Inr v \<Rightarrow>
              (case index_last (base_values e) k of
                 Inl err \<Rightarrow> Inl err
               | Inr b \<Rightarrow> Inr (e\<lparr>ex_values := v, base_values := b\<rparr>)))"

text \<open>
  What the code takes from outside this module: running an engine on a matrix
  (\<open>explainer(X)\<close>, a deterministic function here), \<open>retain_period_common_to_all\<close> of
  \<open>darts.utils\<close> (it is handed the three inputs, of which the covariates may be
  \<open>None\<close>, and returns a list of series or raises), and \<open>shap.utils.sample\<close>.
\<close>

record libraries =
  explain :: "explainer \<Rightarrow> data_frame \<Rightarrow> explanation"
  retain_period_common_to_all :: "time_series option list \<Rightarrow> error + time_series list"
  shap_utils_sample :: "data_frame \<Rightarrow> nat \<Rightarrow> data_frame"

section \<open>The dispatcher \<open>RegressionShapExplainers\<close>\<close>

record regression_model =
  model :: sk_estimator
  input_dim_target :: nat
  output_chunk_length :: nat
  lags :: lags_dict

text \<open>
  \<open>self.explainers\<close> is a dictionary of dictionaries of engines, keyed by the loop
  counters, or one engine.
\<close>

datatype explainers =
    Per_Output "(int \<times> (nat \<times> explainer) list) list"
  | Single_Engine explainer

record regression_shap_explainers =
  rse_model :: regression_model
  multioutput :: bool
  target_dim :: nat
  background_X :: data_frame
  target_dict :: "(string \<times> nat) list"
  explainers :: explainers
  cache_explainers :: "explanation option"
  cache_foreground_series :: "time_series option"
  cache_foreground_past_covariates :: "time_series option"
  cache_foreground_future_covariates :: "time_series option"
  cache_foreground_X :: "data_frame option"
  foreground_changed :: bool

fun mapM :: "('a \<Rightarrow> error + 'b) \<Rightarrow> 'a list \<Rightarrow> error + 'b list" where
  "mapM f [] = Inr []"
| "mapM f (x # xs) =
     (case f x of
        Inl e \<Rightarrow> Inl e
      | Inr y \<Rightarrow> (case mapM f xs of Inl e \<Rightarrow> Inl e | Inr ys \<Rightarrow> Inr (y # ys)))"

text \<open>
  The body of the double loop of \<open>__init__\<close>: the engine for loop counters \<open>i\<close> (horizon)
  and \<open>j\<close> (target) wraps \<open>estimators_[i + j]\<close>, and a tree engine is replaced by
  \<open>shap.TreeExplainer\<close> of the same estimator.
\<close>

definition output_explainer :: "sk_estimator \<Rightarrow> data_frame \<Rightarrow> nat \<Rightarrow> nat \<Rightarrow> error + explainer" where
  "output_explainer m bg i j =
     (case estimators m of
        Inl e \<Rightarrow> Inl e
      | Inr ests \<Rightarrow>
         (case py_get ests (int (i + j)) of
            Inl e \<Rightarrow> Inl e
          | Inr est \<Rightarrow>
              let ex = shap_Explainer est bg
              in Inr (if is_Tree ex then shap_TreeExplainer est else ex)))"

definition per_output_explainers ::
  "regression_model \<Rightarrow> nat \<Rightarrow> data_frame \<Rightarrow> error + (int \<times> (nat \<times> explainer) list) list" where
  "per_output_explainers m tdim bg =
     mapM (\<lambda>i. case mapM (\<lambda>j. case output_explainer (model m) bg i j of
                                  Inl e \<Rightarrow> Inl e
                                | Inr ex \<Rightarrow> Inr (j, ex)) [0..<tdim] of
                 Inl e \<Rightarrow> Inl e
               | Inr row \<Rightarrow> Inr (int i, row))
          [0..<output_chunk_length m]"

definition single_explainer :: "sk_estimator \<Rightarrow> data_frame \<Rightarrow> explainer" where
  "single_explainer m bg =
     (let ex = shap_Explainer m bg in if is_Tree ex then shap_TreeExplainer m else ex)"

text \<open>
  \<open>{c: i for i, c in enumerate(columns)}\<close> as the list of its assignments; a lookup
  finds the last assignment to the key, and a key never assigned raises.
\<close>

definition enumerate_columns :: "string list \<Rightarrow> (string \<times> nat) list" where
  "enumerate_columns cs = zip cs [0..<length cs]"

definition dict_get :: "(string \<times> nat) list \<Rightarrow> string option \<Rightarrow> error + nat" where
  "dict_get d k =
     (case k of
        None \<Rightarrow> Inl (KeyError ''None'')
      | Some c \<Rightarrow> (case map_of (rev d) c of None \<Rightarrow> Inl (KeyError c) | Some i \<Rightarrow> Inr i))"

text \<open>
  \<open>RegressionShapExplainers.__init__\<close>. The background matrix is built first; then
  \<open>background_series.columns\<close> needs a single series.
\<close>

definition RegressionShapExplainers_init ::
  "regression_model \<Rightarrow> series_input \<Rightarrow> nat option \<Rightarrow> error + regression_shap_explainers" where
  "RegressionShapExplainers_init m background background_nb_samples =
     (let multi = get_tags_multioutput (model m);
          tdim = input_dim_target m
      in case create_RegressionModel_shap_X (lags m) background background_nb_samples of
           Inl e \<Rightarrow> Inl e
         | Inr bg_X \<Rightarrow>
            (case background of
               Sequence tss pcs fcs \<Rightarrow> Inl (AttributeError ''list object has no attribute columns'')
             | Single ts pc fc \<Rightarrow>
                (case (if (1 < tdim \<or> 1 < output_chunk_length m) \<and> \<not> multi
                       then (case per_output_explainers m tdim bg_X of
                               Inl e \<Rightarrow> Inl e
                             | Inr d \<Rightarrow> Inr (Per_Output d))
                       else Inr (Single_Engine (single_explainer (model m) bg_X))) of
                   Inl e \<Rightarrow> Inl e
                 | Inr exs \<Rightarrow>
                     Inr \<lparr>rse_model = m,
                          multioutput = multi,
                          target_dim = tdim,
                          background_X = bg_X,
                          target_dict = enumerate_columns (columns ts),
                          explainers = exs,
                          cache_explainers = None,
                          cache_foreground_series = None,
                          cache_foreground_past_covariates = None,
                          cache_foreground_future_covariates = None,
                          cache_foreground_X = None,
                          foreground_changed = True\<rparr>)))"

text \<open>
  The last two statements of \<open>shap_values_from_X\<close>: the time index of the explained rows
  is attached and the base values are flattened.
\<close>

definition attach :: "data_frame \<Rightarrow> explanation \<Rightarrow> explanation" where
  "attach X e = e\<lparr>base_values := ravel (base_values e), ex_time_index := Some (df_index X)\<rparr>"

text \<open>
  \<open>shap_values_from_X\<close>, returning the result or the exception together with the object
  after the call. In the dictionary branch the horizon is looked up first, then the target
  name; in the native multi-output branch the engine's result is stored when
  \<open>foreground_changed\<close> is set, and the stored result is sliced at
  \<open>horizon * target_dict[target_name] + target_dict[target_name]\<close>.
\<close>

definition shap_values_from_X ::
  "libraries \<Rightarrow> regression_shap_explainers \<Rightarrow> data_frame \<Rightarrow> int option \<Rightarrow> string option
     \<Rightarrow> (error + explanation) \<times> regression_shap_explainers" where
  "shap_values_from_X lib s X horizon target_name =
     (if 1 < target_dim s \<or> 1 < output_chunk_length (rse_model s)
      then (case explainers s of
              Per_Output d \<Rightarrow>
                if \<not> is_MultiOutputRegressor (model (rse_model s))
                then (Inl AssertionError, s)
                else (case (case horizon of None \<Rightarrow> None | Some h \<Rightarrow> map_of d h) of
                        None \<Rightarrow> (Inl (KeyError ''horizon''), s)
                      | Some row \<Rightarrow>
                         (case dict_get (target_dict s) target_name of
                            Inl e \<Rightarrow> (Inl e, s)
                          | Inr ti \<Rightarrow>
                             (case map_of row ti of
                                None \<Rightarrow> (Inl (KeyError ''target''), s)
                              | Some ex \<Rightarrow> (Inr (attach X (explain lib ex X)), s))))
            | Single_Engine ex \<Rightarrow>
                let s' = (if foreground_changed s
                          then s\<lparr>cache_explainers := Some (explain lib ex X)\<rparr> else s)
                in (case dict_get (target_dict s') target_name of
                      Inl e \<Rightarrow> (Inl e, s')
                    | Inr ti \<Rightarrow>
                       (case horizon of
                          None \<Rightarrow> (Inl (TypeError ''unsupported operand type(s) for *''), s')
                        | Some h \<Rightarrow>
                           (case cache_explainers s' of
                              None \<Rightarrow> (Inl (TypeError ''NoneType object is not subscriptable''), s')
                            | Some c \<Rightarrow>
                               (case slice_output c (h * int ti + int ti) of
                                  Inl e \<Rightarrow> (Inl e, s')
                                | Inr sv \<Rightarrow> (Inr (attach X sv), s'))))))
      else (case explainers s of
              Per_Output d \<Rightarrow> (Inl (TypeError ''dict object is not callable''), s)
            | Single_Engine ex \<Rightarrow> (Inr (attach X (explain lib ex X)), s)))"

text \<open>
  The test \<open>all(a.time_index == b.time_index == c.time_index)\<close>. The chained comparison is
  \<open>(a == b) and (b == c)\<close> on pandas indexes: \<open>==\<close> compares element by element and
  raises when the lengths differ, and \<open>and\<close> takes the truth value of the first array,
  which numpy gives for an array of one element only (false for an empty one). A falsy
  first array is the value of the whole expression; otherwise it is the second array.
\<close>

definition index_eq :: "int list \<Rightarrow> int list \<Rightarrow> error + bool list" where
  "index_eq a b =
     (if length a \<noteq> length b then Inl (ValueError ''Lengths must match to compare'')
      else Inr (map (\<lambda>p. fst p = snd p) (zip a b)))"

definition array_truth :: "bool list \<Rightarrow> error + bool" where
  "array_truth bs =
     (case bs of
        [] \<Rightarrow> Inr False
      | [b] \<Rightarrow> Inr b
      | b # c # rest \<Rightarrow>
          Inl (ValueError ''The truth value of an array with more than one element is ambiguous''))"

definition share_time_index ::
  "time_series \<Rightarrow> time_series option \<Rightarrow> time_series option \<Rightarrow> error + bool" where
  "share_time_index fs pc fc =
     (case pc of
        None \<Rightarrow> Inl (AttributeError ''NoneType object has no attribute time_index'')
      | Some p \<Rightarrow>
         (case index_eq (time_index fs) (time_index p) of
            Inl e \<Rightarrow> Inl e
          | Inr ab \<Rightarrow>
             (case array_truth ab of
                Inl e \<Rightarrow> Inl e
              | Inr t \<Rightarrow>
                  if t
                  then (case fc of
                          None \<Rightarrow> Inl (AttributeError ''NoneType object has no attribute time_index'')
                        | Some f \<Rightarrow>
                           (case index_eq (time_index p) (time_index f) of
                              Inl e \<Rightarrow> Inl e
                            | Inr bc \<Rightarrow> Inr (list_all (\<lambda>b. b) bc)))
                  else Inr (list_all (\<lambda>b. b) ab))))"

definition index_warning :: string where
  "index_warning = ''The series and covariates don't share the same time index. We will take the time index common to all.''"

text \<open>
  \<open>RegressionShapExplainers.shap_values\<close>: the result or the exception, the object after
  the call, and the warnings logged. The matrix is rebuilt, and the three inputs and the
  copy of the matrix are stored, when one of the inputs differs from the stored one;
  otherwise only \<open>foreground_changed\<close> is cleared and the stored matrix is used.
\<close>

definition shap_values ::
  "libraries \<Rightarrow> regression_shap_explainers \<Rightarrow> time_series \<Rightarrow> time_series option
     \<Rightarrow> time_series option \<Rightarrow> int option \<Rightarrow> string option
     \<Rightarrow> (error + explanation) \<times> regression_shap_explainers \<times> string list" where
  "shap_values lib s foreground_series foreground_past_covariates foreground_future_covariates
       horizon target_name =
     (case share_time_index foreground_series foreground_past_covariates
             foreground_future_covariates of
        Inl e \<Rightarrow> (Inl e, s, [])
      | Inr same \<Rightarrow>
          let logged = (if \<not> same then [index_warning] else [])
          in (case retain_period_common_to_all lib
                     [Some foreground_series, foreground_past_covariates,
                      foreground_future_covariates] of
                Inl e \<Rightarrow> (Inl e, s, logged)
              | Inr [fs, pc, fc] \<Rightarrow>
                  if cache_foreground_series s \<noteq> Some fs
                     \<or> cache_foreground_past_covariates s \<noteq> Some pc
                     \<or> cache_foreground_future_covariates s \<noteq> Some fc
                  then (case create_RegressionModel_shap_X (lags (rse_model s))
                               (Single fs (Some pc) (Some fc)) None of
                          Inl e \<Rightarrow> (Inl e, s, logged)
                        | Inr foreground_X \<Rightarrow>
                            let s1 = s\<lparr>cache_foreground_series := Some fs,
                                       cache_foreground_past_covariates := Some pc,
                                       cache_foreground_future_covariates := Some fc,
                                       foreground_changed := True,
                                       cache_foreground_X := Some foreground_X\<rparr>;
                                (r, s2) = shap_values_from_X lib s1 foreground_X horizon target_name
                            in (r, s2, logged))
                  else (let s1 = s\<lparr>foreground_changed := False\<rparr>
                        in case cache_foreground_X s1 of
                             None \<Rightarrow> (Inl (LibraryError ''explainer(None)''), s1, logged)
                           | Some X \<Rightarrow>
                               let (r, s2) = shap_values_from_X lib s1 X horizon target_name
                               in (r, s2, logged))
              | Inr other \<Rightarrow> (Inl (ValueError ''wrong number of values to unpack''), s, logged)))"

subsection \<open>The foreground cache\<close>

text \<open>
  What the stored fields mean when they agree: the stored matrix is the one built from
  the stored inputs and, for a native multi-output estimator, the stored engine result
  is the engine's result on that matrix. \<open>same_setup\<close> relates two states of one
  explainer that differ in the cache only, and \<open>reached\<close> holds of the states an
  explainer goes through when \<open>shap_values\<close> is called on it any number of times.
\<close>

definition cache_coherent :: "libraries \<Rightarrow> regression_shap_explainers \<Rightarrow> bool" where
  "cache_coherent lib s =
     (case cache_foreground_X s of
        None \<Rightarrow> cache_foreground_series s = None
      | Some X \<Rightarrow>
          (case (cache_foreground_series s, cache_foreground_past_covariates s,
                 cache_foreground_future_covariates s) of
             (Some fs, Some pc, Some fc) \<Rightarrow>
               create_RegressionModel_shap_X (lags (rse_model s)) (Single fs (Some pc) (Some fc)) None
                 = Inr X
               \<and> (case explainers s of
                     Per_Output d \<Rightarrow> True
                   | Single_Engine ex \<Rightarrow>
                       if 1 < target_dim s \<or> 1 < output_chunk_length (rse_model s)
                       then cache_explainers s = Some (explain lib ex X) else True)
           | other \<Rightarrow> False))"

definition same_setup :: "regression_shap_explainers \<Rightarrow> regression_shap_explainers \<Rightarrow> bool" where
  "same_setup s s' =
     (rse_model s' = rse_model s \<and> target_dim s' = target_dim s
      \<and> target_dict s' = target_dict s \<and> explainers s' = explainers s)"

inductive reached ::
  "libraries \<Rightarrow> regression_shap_explainers \<Rightarrow> regression_shap_explainers \<Rightarrow> bool"
  for lib :: libraries and constructed :: regression_shap_explainers where
  start: "reached lib constructed constructed"
| call: "reached lib constructed s
         \<Longrightarrow> shap_values lib s fs pc fc horizon target_name = (r, s', logged)
         \<Longrightarrow> reached lib constructed s'"

text \<open>
  The part of \<open>shap_values\<close> before the cache is consulted (the test of the time indexes
  and the cut to the common period), whether the inputs are the stored ones, and the
  assignments made after a rebuild.
\<close>

definition prepared ::
  "libraries \<Rightarrow> time_series \<Rightarrow> time_series option \<Rightarrow> time_series option
     \<Rightarrow> (error \<times> string list) + (time_series \<times> time_series \<times> time_series \<times> string list)" where
  "prepared lib fs pc fc =
     (case share_time_index fs pc fc of
        Inl e \<Rightarrow> Inl (e, [])
      | Inr same \<Rightarrow>
          let logged = (if \<not> same then [index_warning] else [])
          in (case retain_period_common_to_all lib [Some fs, pc, fc] of
                Inl e \<Rightarrow> Inl (e, logged)
              | Inr [a, b, c] \<Rightarrow> Inr (a, b, c, logged)
              | Inr other \<Rightarrow> Inl (ValueError ''wrong number of values to unpack'', logged)))"

definition cached_inputs :: "regression_shap_explainers \<Rightarrow> time_series \<Rightarrow> time_series \<Rightarrow> time_series \<Rightarrow> bool" where
  "cached_inputs s a b c =
     (cache_foreground_series s = Some a \<and> cache_foreground_past_covariates s = Some b
      \<and> cache_foreground_future_covariates s = Some c)"

definition store_inputs ::
  "regression_shap_explainers \<Rightarrow> time_series \<Rightarrow> time_series \<Rightarrow> time_series \<Rightarrow> data_frame
     \<Rightarrow> regression_shap_explainers" where
  "store_inputs s a b c X =
     s\<lparr>cache_foreground_series := Some a, cache_foreground_past_covariates := Some b,
       cache_foreground_future_covariates := Some c, foreground_changed := True,
       cache_foreground_X := Some X\<rparr>"

section \<open>The wrapper \<open>ShapExplainer\<close>\<close>

datatype forecasting_model =
    RegressionModel regression_model
  | Other_ForecastingModel string

record shap_explainer =
  se_model :: regression_model
  target_names :: "string list"
  n :: nat
  se_explainers :: regression_shap_explainers

text \<open>
  Modelled from the spec: the constructor of the base explainer
  (\<open>darts.explainability.explainability\<close>) is not among the sources. It keeps the model and
  the background data as they are given; the known target names are the columns of the
  background series and the forecast length \<open>n\<close> is the model's \<open>output_chunk_length\<close>.
\<close>

definition ForecastingModelExplainer_init ::
  "regression_model \<Rightarrow> series_input \<Rightarrow> string list \<times> nat" where
  "ForecastingModelExplainer_init m background =
     (case background of
        Single ts pc fc \<Rightarrow> (columns ts, output_chunk_length m)
      | Sequence tss pcs fcs \<Rightarrow>
          (case tss of [] \<Rightarrow> ([], output_chunk_length m)
           | ts # rest \<Rightarrow> (columns ts, output_chunk_length m)))"

text \<open>
  \<open>ShapExplainer.__init__\<close>: the type check comes first. \<open>raise_log\<close> of
  \<open>darts.logging\<close> logs the exception it is handed and raises it.
\<close>

definition ShapExplainer_init :: "forecasting_model \<Rightarrow> series_input \<Rightarrow> error + shap_explainer" where
  "ShapExplainer_init fm background =
     (case fm of
        Other_ForecastingModel name \<Rightarrow>
          Inl (ValueError ''Invalid model type. For now, only RegressionModel type can be explained.'')
      | RegressionModel m \<Rightarrow>
          let (names, horizon_count) = ForecastingModelExplainer_init m background
          in (case RegressionShapExplainers_init m background None of
                Inl e \<Rightarrow> Inl e
              | Inr exs \<Rightarrow>
                  Inr \<lparr>se_model = m, target_names = names, n = horizon_count,
                       se_explainers = exs\<rparr>))"

text \<open>
  \<open>ShapExplainer.shap_values\<close>: the loop over the targets inside the loop over the
  horizons, each step one call of the dispatcher; the first exception ends both.
\<close>

fun explain_targets ::
  "libraries \<Rightarrow> regression_shap_explainers \<Rightarrow> time_series \<Rightarrow> time_series option
     \<Rightarrow> time_series option \<Rightarrow> int \<Rightarrow> string list \<Rightarrow> (string \<rightharpoonup> explanation)
     \<Rightarrow> (error + (string \<rightharpoonup> explanation)) \<times> regression_shap_explainers \<times> string list" where
  "explain_targets lib s fs pc fc h [] dict_h = (Inr dict_h, s, [])"
| "explain_targets lib s fs pc fc h (t # ts) dict_h =
     (case shap_values lib s fs pc fc (Some h) (Some t) of
        (Inl e, s1, logged) \<Rightarrow> (Inl e, s1, logged)
      | (Inr v, s1, logged) \<Rightarrow>
          (case explain_targets lib s1 fs pc fc h ts (dict_h(t \<mapsto> v)) of
             (r, s2, logged2) \<Rightarrow> (r, s2, logged @ logged2)))"

fun explain_horizons ::
  "libraries \<Rightarrow> regression_shap_explainers \<Rightarrow> time_series \<Rightarrow> time_series option
     \<Rightarrow> time_series option \<Rightarrow> int list \<Rightarrow> string list
     \<Rightarrow> (int \<rightharpoonup> (string \<rightharpoonup> explanation))
     \<Rightarrow> (error + (int \<rightharpoonup> (string \<rightharpoonup> explanation))) \<times> regression_shap_explainers \<times> string list" where
  "explain_horizons lib s fs pc fc [] tns shap_values_dict = (Inr shap_values_dict, s, [])"
| "explain_horizons lib s fs pc fc (h # hs) tns shap_values_dict =
     (case explain_targets lib s fs pc fc h tns Map.empty of
        (Inl e, s1, logged) \<Rightarrow> (Inl e, s1, logged)
      | (Inr dict_h, s1, logged) \<Rightarrow>
          (case explain_horizons lib s1 fs pc fc hs tns (shap_values_dict(h \<mapsto> dict_h)) of
             (r, s2, logged2) \<Rightarrow> (r, s2, logged @ logged2)))"

definition ShapExplainer_shap_values ::
  "libraries \<Rightarrow> shap_explainer \<Rightarrow> time_series \<Rightarrow> time_series option \<Rightarrow> time_series option
     \<Rightarrow> int list option \<Rightarrow> string list option
     \<Rightarrow> (error + (int \<rightharpoonup> (string \<rightharpoonup> explanation))) \<times> shap_explainer \<times> string list" where
  "ShapExplainer_shap_values lib se foreground_series foreground_past_covariates
       foreground_future_covariates horizons tnames =
     (let tns = (case tnames of None \<Rightarrow> target_names se | Some ts \<Rightarrow> ts);
          hs = (case horizons of None \<Rightarrow> map int [0..<n se] | Some hs \<Rightarrow> hs)
      in case explain_horizons lib (se_explainers se) foreground_series
                foreground_past_covariates foreground_future_covariates hs tns Map.empty of
           (r, s, logged) \<Rightarrow> (r, se\<lparr>se_explainers := s\<rparr>, logged))"

text \<open>
  \<open>ShapExplainer.summary_plot\<close>. Modelled from the spec: \<open>raise_if\<close> of \<open>darts.logging\<close>
  is not among the sources; it raises the validation error, a \<open>ValueError\<close> with the
  given message, when its condition holds. The plots are display only; what is returned
  here is the list of the explanations plotted.
\<close>

definition target_names_error :: string where
  "target_names_error = ''One of the target names doesn't exist in the original background ts.''"

definition horizons_error :: string where
  "horizons_error = ''One of the horizons is greater than the model output_chunk_length.''"

fun plot_horizons ::
  "libraries \<Rightarrow> regression_shap_explainers \<Rightarrow> data_frame \<Rightarrow> string \<Rightarrow> int list
     \<Rightarrow> (error + explanation list) \<times> regression_shap_explainers" where
  "plot_horizons lib s X t [] = (Inr [], s)"
| "plot_horizons lib s X t (h # hs) =
     (case shap_values_from_X lib s X (Some h) (Some t) of
        (Inl e, s1) \<Rightarrow> (Inl e, s1)
      | (Inr v, s1) \<Rightarrow>
          (case plot_horizons lib s1 X t hs of
             (Inl e, s2) \<Rightarrow> (Inl e, s2)
           | (Inr vs, s2) \<Rightarrow> (Inr (v # vs), s2)))"

fun plot_targets ::
  "libraries \<Rightarrow> regression_shap_explainers \<Rightarrow> data_frame \<Rightarrow> string list \<Rightarrow> int list
     \<Rightarrow> (error + explanation list) \<times> regression_shap_explainers" where
  "plot_targets lib s X [] hs = (Inr [], s)"
| "plot_targets lib s X (t # ts) hs =
     (case plot_horizons lib s X t hs of
        (Inl e, s1) \<Rightarrow> (Inl e, s1)
      | (Inr vs, s1) \<Rightarrow>
          (case plot_targets lib s1 X ts hs of
             (Inl e, s2) \<Rightarrow> (Inl e, s2)
           | (Inr ws, s2) \<Rightarrow> (Inr (vs @ ws), s2)))"

definition py_max :: "int list \<Rightarrow> error + int" where
  "py_max xs =
     (case xs of
        [] \<Rightarrow> Inl (ValueError ''max() arg is an empty sequence'')
      | x # rest \<Rightarrow> Inr (fold max rest x))"

definition summary_plot ::
  "libraries \<Rightarrow> shap_explainer \<Rightarrow> string list option \<Rightarrow> int list option \<Rightarrow> nat option
     \<Rightarrow> (error + explanation list) \<times> shap_explainer" where
  "summary_plot lib se tnames horizons nb_samples =
     (if (case tnames of
            None \<Rightarrow> False
          | Some ts \<Rightarrow> list_ex (\<lambda>target_name. target_name \<notin> set (target_names se)) ts)
      then (Inl (ValueError target_names_error), se)
      else case (case horizons of None \<Rightarrow> Inr False
                 | Some hs \<Rightarrow> (case py_max hs of Inl e \<Rightarrow> Inl e
                                | Inr mx \<Rightarrow> Inr (int (n se) - 1 < mx))) of
             Inl e \<Rightarrow> (Inl e, se)
           | Inr too_far \<Rightarrow>
               if too_far then (Inl (ValueError horizons_error), se)
               else let bg = background_X (se_explainers se);
                        foreground_X_sampled =
                          (case nb_samples of
                             None \<Rightarrow> bg
                           | Some k \<Rightarrow> if k = 0 then bg else shap_utils_sample lib bg k);
                        tns = (case tnames of None \<Rightarrow> target_names se | Some ts \<Rightarrow> ts);
                        hs = (case horizons of
                                None \<Rightarrow> map int [0..<output_chunk_length (se_model se)]
                              | Some hs \<Rightarrow> hs)
                    in case plot_targets lib (se_explainers se) foreground_X_sampled tns hs of
                         (r, s) \<Rightarrow> (r, se\<lparr>se_explainers := s\<rparr>))"

section \<open>Concrete libraries, models and series\<close>

text \<open>
  Modelled from the spec: \<open>retain_period_common_to_all\<close> of \<open>darts.utils\<close> is not among
  the sources. "The overlapping period is used": with \<open>last_first\<close> the latest start and
  \<open>first_last\<close> the earliest end of the series given, the library function raises when
  \<open>last_first >= first_last\<close> (the series must have nonzero overlap), and otherwise
  returns \<open>s.slice(last_first, first_last)\<close> of every series, which on an integer index
  leaves out the end stamp. The starts are read first, in the order of the series:
  \<open>None\<close> has no \<open>start_time\<close>, and a series without a time step has no first stamp.
\<close>

definition slice_series :: "int \<Rightarrow> int \<Rightarrow> time_series \<Rightarrow> time_series" where
  "slice_series lo hi ts =
     (let kept = filter (\<lambda>p. lo \<le> fst p \<and> fst p < hi) (zip (time_index ts) (ts_values ts))
      in ts\<lparr>time_index := map fst kept, ts_values := map snd kept\<rparr>)"

definition start_time :: "time_series option \<Rightarrow> error + int" where
  "start_time given =
     (case given of
        None \<Rightarrow> Inl (AttributeError ''NoneType object has no attribute start_time'')
      | Some ts \<Rightarrow>
          (case time_index ts of
             [] \<Rightarrow> Inl (IndexError ''index 0 is out of bounds for axis 0 with size 0'')
           | t # rest \<Rightarrow> Inr t))"

definition overlapping_period :: "time_series option list \<Rightarrow> error + time_series list" where
  "overlapping_period given =
     (case mapM start_time given of
        Inl e \<Rightarrow> Inl e
      | Inr starts \<Rightarrow>
          (case starts of
             [] \<Rightarrow> Inl (ValueError ''max() arg is an empty sequence'')
           | t # ts \<Rightarrow>
               let ss = map the given;
                   ends = map (\<lambda>x. last (time_index x)) ss;
                   last_first = fold max ts t;
                   first_last = fold min (tl ends) (hd ends)
               in if first_last \<le> last_first
                  then Inl (ValueError ''The provided time series must have nonzero overlap'')
                  else Inr (map (slice_series last_first first_last) ss)))"

text \<open>
  An engine to run the code on: for a native multi-output estimator it reports four
  outputs and the entry for output \<open>k\<close> is \<open>k\<close>; for any other estimator every entry is
  the number of rows explained.
\<close>

definition example_engine :: "explainer \<Rightarrow> data_frame \<Rightarrow> explanation" where
  "example_engine ex X =
     (let r = length (df_rows X); f = length (df_columns X)
      in if get_tags_multioutput (wrapped ex)
         then \<lparr>ex_values = \<lparr>shape = [r, f, 4], entries = concat (replicate (r * f) [0, 1, 2, 3])\<rparr>,
               base_values = \<lparr>shape = [r, 4], entries = concat (replicate r [0, 1, 2, 3])\<rparr>,
               feature_names = df_columns X, ex_time_index = None\<rparr>
         else \<lparr>ex_values = \<lparr>shape = [r, f], entries = replicate (r * f) (real r)\<rparr>,
               base_values = \<lparr>shape = [r, 1], entries = replicate r 0\<rparr>,
               feature_names = df_columns X, ex_time_index = None\<rparr>)"

definition example_lib :: libraries where
  "example_lib =
     \<lparr>explain = example_engine,
      retain_period_common_to_all = overlapping_period,
      shap_utils_sample =
        (\<lambda>X k. X\<lparr>df_index := take k (df_index X), df_rows := take k (df_rows X)\<rparr>)\<rparr>"

definition one_target :: time_series where
  "one_target = \<lparr>time_index = [0, 1, 2], columns = [''y''],
                 ts_values = [[Some 5], [Some 6], [Some 7]]\<rparr>"

definition two_targets :: time_series where
  "two_targets = \<lparr>time_index = [0, 1, 2], columns = [''a'', ''b''],
                  ts_values = [[Some 1, Some 10], [Some 2, Some 20], [Some 3, Some 30]]\<rparr>"

definition single_model :: regression_model where
  "single_model =
     \<lparr>model = Estimator ''linear'' False False, input_dim_target = 1, output_chunk_length = 1,
      lags = \<lparr>lags_target = Some [-1], lags_past = None, lags_future = None\<rparr>\<rparr>"

definition native_model :: regression_model where
  "native_model =
     \<lparr>model = Estimator ''mlp'' True False, input_dim_target = 2, output_chunk_length = 2,
      lags = \<lparr>lags_target = Some [-1], lags_past = None, lags_future = None\<rparr>\<rparr>"

definition ensemble_model :: regression_model where
  "ensemble_model =
     \<lparr>model = MultiOutputRegressor
                [Estimator ''e0'' False True, Estimator ''e1'' False False,
                 Estimator ''e2'' False False, Estimator ''e3'' False False],
      input_dim_target = 2, output_chunk_length = 2,
      lags = \<lparr>lags_target = Some [-1], lags_past = None, lags_future = None\<rparr>\<rparr>"

definition single_explainers :: regression_shap_explainers where
  "single_explainers =
     projr (RegressionShapExplainers_init single_model (Single one_target None None) None)"

definition native_explainers :: regression_shap_explainers where
  "native_explainers =
     projr (RegressionShapExplainers_init native_model (Single two_targets None None) None)"








text \<open>Covariates on the time steps of the series above, and on later ones.\<close>

definition background_cov :: time_series where
  "background_cov = \<lparr>time_index = [0, 1, 2], columns = [''c''],
                     ts_values = [[Some 4], [Some 5], [Some 6]]\<rparr>"

definition later_cov :: time_series where
  "later_cov = \<lparr>time_index = [1, 2, 3], columns = [''c''],
                ts_values = [[Some 5], [Some 6], [Some 7]]\<rparr>"

definition single_shap_explainer :: shap_explainer where
  "single_shap_explainer =
     projr (ShapExplainer_init (RegressionModel single_model) (Single one_target None None))"

text \<open>Which exception, if any, an outcome is.\<close>

fun raises_TypeError :: "error + 'a \<Rightarrow> bool" where
  "raises_TypeError (Inl (TypeError msg)) = True"
| "raises_TypeError r = False"

section \<open>The dispatch on horizon and target\<close>

lemma output_explainer_wraps:
  "output_explainer (MultiOutputRegressor ests) bg i j = Inr ex
     \<Longrightarrow> i + j < length ests \<and> wrapped ex = ests ! (i + j)"
  by (auto simp: output_explainer_def py_get_def Let_def shap_Explainer_def
      shap_TreeExplainer_def nat_int_add split: if_splits)

text \<open>
  Claim C10. With a single target component and \<open>output_chunk_length = 1\<close>,
  \<open>shap_values_from_X\<close> on an explainer built by the constructor gives the same outcome
  whatever the horizon and the target name are (unset, out of range or unknown alike):
  it is the result of the one engine on the matrix, with the time index attached, and the
  object is left as it was.
\<close>

theorem single_path_ignores_horizon_and_target:
  assumes "RegressionShapExplainers_init m background nb = Inr s"
    and "input_dim_target m = 1" and "output_chunk_length m = 1"
  shows "shap_values_from_X lib s X horizon target_name
           = shap_values_from_X lib s X horizon' target_name'
       \<and> shap_values_from_X lib s X horizon target_name
           = (Inr (attach X (explain lib (single_explainer (model m) (background_X s)) X)), s)"
  using assms
  by (auto simp: RegressionShapExplainers_init_def shap_values_from_X_def Let_def
      split: sum.splits series_input.splits)

theorem single_path_ignores_horizon_and_target_witness:
  "RegressionShapExplainers_init single_model (Single one_target None None) None
     = Inr single_explainers
   \<and> input_dim_target single_model = 1 \<and> output_chunk_length single_model = 1
   \<and> shap_values_from_X example_lib single_explainers (background_X single_explainers)
        (Some 7) (Some ''absent'')
      = shap_values_from_X example_lib single_explainers (background_X single_explainers)
          None (Some ''y'')"
proof -
  have built: "RegressionShapExplainers_init single_model (Single one_target None None) None
                 = Inr single_explainers"
    by code_simp
  have dims: "input_dim_target single_model = 1" "output_chunk_length single_model = 1"
    by (simp_all add: single_model_def)
  from single_path_ignores_horizon_and_target [OF built dims] built dims
  show ?thesis by blast
qed

text \<open>
  Claim C7. Constructing the explainer with a model outside the regression family fails
  at once; the exception raised is the \<open>ValueError\<close> with the message about the model
  type (the same exception class as the validation errors), not a \<open>TypeError\<close>.
\<close>

theorem invalid_model_type_rejected:
  "ShapExplainer_init (Other_ForecastingModel name) background
     = Inl (ValueError ''Invalid model type. For now, only RegressionModel type can be explained.'')"
  by (simp add: ShapExplainer_init_def)

theorem invalid_model_type_not_TypeError:
  "\<not> raises_TypeError
        (ShapExplainer_init (Other_ForecastingModel ''ARIMA'') (Single one_target None None))"
  by (simp add: ShapExplainer_init_def)

text \<open>
  Claim C1. In the native multi-output branch the stored engine result is sliced at
  \<open>horizon * target_index + target_index\<close>. For two targets \<open>a\<close>, \<open>b\<close> and two horizons,
  horizon 1 and target \<open>a\<close> give position 0, the output of horizon 0, where the layout
  \<open>horizon * target_dim + target_index\<close> has position 2: the call returns the slice whose
  entries are 0 and not the one whose entries are 2.
\<close>

theorem native_multioutput_slice_at_failing_input:
  "RegressionShapExplainers_init native_model (Single two_targets None None) None
     = Inr native_explainers
   \<and> fst (shap_values_from_X example_lib native_explainers (background_X native_explainers)
            (Some 1) (Some ''a''))
      = Inr \<lparr>ex_values = \<lparr>shape = [2, 2], entries = [0, 0, 0, 0]\<rparr>,
             base_values = \<lparr>shape = [2], entries = [0, 0]\<rparr>,
             feature_names = [''a_target_lag-1'', ''b_target_lag-1''],
             ex_time_index = Some [1, 2]\<rparr>
   \<and> map_sum id (attach (background_X native_explainers))
        (slice_output (example_engine (single_explainer (model native_model)
                          (background_X native_explainers)) (background_X native_explainers))
           (1 * int (input_dim_target native_model) + 0))
      = Inr \<lparr>ex_values = \<lparr>shape = [2, 2], entries = [2, 2, 2, 2]\<rparr>,
             base_values = \<lparr>shape = [2], entries = [2, 2]\<rparr>,
             feature_names = [''a_target_lag-1'', ''b_target_lag-1''],
             ex_time_index = Some [1, 2]\<rparr>"
  by code_simp

text \<open>
  Claim C2. For a per-output ensemble the constructor makes one engine per horizon and
  target, a tree engine for a tree estimator, but the engine for loop counters \<open>i\<close>, \<open>j\<close>
  wraps \<open>estimators_[i + j]\<close>. With two horizons and two targets the pairs (0, 1) and
  (1, 0) share the estimator \<open>e1\<close>, pair (1, 1) has \<open>e2\<close>, and \<open>e3\<close> is never used.
\<close>

theorem per_output_engines_at_failing_input:
  "map_sum id
     (\<lambda>s. case explainers s of
             Per_Output d \<Rightarrow> map (\<lambda>p. (fst p, map (\<lambda>q. (fst q, is_Tree (snd q), wrapped (snd q))) (snd p))) d
           | Single_Engine ex \<Rightarrow> [])
     (RegressionShapExplainers_init ensemble_model (Single two_targets None None) None)
   = Inr [(0, [(0, True, Estimator ''e0'' False True), (1, False, Estimator ''e1'' False False)]),
          (1, [(0, False, Estimator ''e1'' False False), (1, False, Estimator ''e2'' False False)])]"
  by code_simp

section \<open>The lagged design matrix is the documented layout\<close>

























section \<open>The foreground cache across calls\<close>

lemma from_X_setup:
  "shap_values_from_X lib s X h t = (r, s') \<Longrightarrow>
     same_setup s s' \<and> cache_foreground_X s' = cache_foreground_X s
     \<and> cache_foreground_series s' = cache_foreground_series s
     \<and> cache_foreground_past_covariates s' = cache_foreground_past_covariates s
     \<and> cache_foreground_future_covariates s' = cache_foreground_future_covariates s
     \<and> foreground_changed s' = foreground_changed s"
  by (auto simp: shap_values_from_X_def same_setup_def Let_def
      split: if_splits explainers.splits option.splits sum.splits)

lemma from_X_cache:
  "shap_values_from_X lib s X h t = (r, s') \<Longrightarrow> explainers s = Single_Engine ex \<Longrightarrow>
   1 < target_dim s \<or> 1 < output_chunk_length (rse_model s) \<Longrightarrow>
   cache_explainers s' = (if foreground_changed s then Some (explain lib ex X) else cache_explainers s)"
  by (auto simp: shap_values_from_X_def Let_def split: if_splits option.splits sum.splits)

lemma from_X_result:
  assumes "same_setup s s'"
    and "\<And>ex. explainers s = Single_Engine ex \<Longrightarrow>
            1 < target_dim s \<or> 1 < output_chunk_length (rse_model s) \<Longrightarrow>
            (if foreground_changed s then Some (explain lib ex X) else cache_explainers s)
            = (if foreground_changed s' then Some (explain lib ex X) else cache_explainers s')"
  shows "fst (shap_values_from_X lib s X h t) = fst (shap_values_from_X lib s' X h t)"
proof (cases "explainers s")
  case (Per_Output d)
  then show ?thesis using assms(1)
    by (simp add: shap_values_from_X_def same_setup_def
        split: if_splits option.splits sum.splits)
next
  case (Single_Engine ex)
  show ?thesis
  proof (cases "1 < target_dim s \<or> 1 < output_chunk_length (rse_model s)")
    case True
    from assms(2) [OF Single_Engine True] Single_Engine True assms(1) show ?thesis
      by (auto simp: shap_values_from_X_def same_setup_def Let_def
          split: if_splits option.splits sum.splits)
  next
    case False
    then show ?thesis using Single_Engine assms(1)
      by (simp add: shap_values_from_X_def same_setup_def)
  qed
qed


lemma shap_values_failed:
  "prepared lib fs pc fc = Inl (e, logged) \<Longrightarrow> shap_values lib s fs pc fc h t = (Inl e, s, logged)"
  by (auto simp: prepared_def shap_values_def Let_def split: sum.splits list.splits if_splits)

lemma shap_values_rebuilt:
  assumes "prepared lib fs pc fc = Inr (a, b, c, logged)" and "\<not> cached_inputs s a b c"
  shows "shap_values lib s fs pc fc h t =
           (case create_RegressionModel_shap_X (lags (rse_model s)) (Single a (Some b) (Some c)) None of
              Inl e \<Rightarrow> (Inl e, s, logged)
            | Inr X \<Rightarrow> (fst (shap_values_from_X lib (store_inputs s a b c X) X h t),
                        snd (shap_values_from_X lib (store_inputs s a b c X) X h t), logged))"
  using assms
  by (auto simp: prepared_def shap_values_def cached_inputs_def store_inputs_def Let_def
      split: sum.splits list.splits if_splits prod.splits)

lemma shap_values_cached:
  assumes "prepared lib fs pc fc = Inr (a, b, c, logged)" and "cached_inputs s a b c"
    and "cache_foreground_X s = Some X"
  shows "shap_values lib s fs pc fc h t =
           (fst (shap_values_from_X lib (s\<lparr>foreground_changed := False\<rparr>) X h t),
            snd (shap_values_from_X lib (s\<lparr>foreground_changed := False\<rparr>) X h t), logged)"
  using assms
  by (auto simp: prepared_def shap_values_def cached_inputs_def Let_def
      split: sum.splits list.splits if_splits prod.splits)


lemma coherent_cached:
  assumes "cache_coherent lib s" and "cached_inputs s a b c"
  shows "\<exists>X. cache_foreground_X s = Some X
           \<and> create_RegressionModel_shap_X (lags (rse_model s)) (Single a (Some b) (Some c)) None = Inr X
           \<and> (\<forall>ex. explainers s = Single_Engine ex
                     \<longrightarrow> 1 < target_dim s \<or> 1 < output_chunk_length (rse_model s)
                     \<longrightarrow> cache_explainers s = Some (explain lib ex X))"
  using assms
  by (auto simp: cache_coherent_def cached_inputs_def split: option.splits explainers.splits if_splits)

lemma call_blocked:
  assumes "prepared lib fs pc fc = Inr (a, b, c, logged)" and "cache_coherent lib s"
    and "create_RegressionModel_shap_X (lags (rse_model s)) (Single a (Some b) (Some c)) None = Inl e"
  shows "shap_values lib s fs pc fc h t = (Inl e, s, logged)"
proof -
  have "\<not> cached_inputs s a b c"
    using coherent_cached [OF assms(2)] assms(3) by fastforce
  from shap_values_rebuilt [OF assms(1) this] assms(3) show ?thesis by simp
qed

lemma call_settles:
  assumes prep: "prepared lib fs pc fc = Inr (a, b, c, logged)" and coh: "cache_coherent lib s"
    and build: "create_RegressionModel_shap_X (lags (rse_model s)) (Single a (Some b) (Some c)) None = Inr X"
    and call: "shap_values lib s fs pc fc h t = (r, s', w)"
  shows "same_setup s s' \<and> cached_inputs s' a b c \<and> cache_foreground_X s' = Some X
         \<and> (\<forall>ex. explainers s = Single_Engine ex
                   \<longrightarrow> 1 < target_dim s \<or> 1 < output_chunk_length (rse_model s)
                   \<longrightarrow> cache_explainers s' = Some (explain lib ex X))"
proof (cases "cached_inputs s a b c")
  case False
  let ?s1 = "store_inputs s a b c X"
  obtain r0 s0 where run: "shap_values_from_X lib ?s1 X h t = (r0, s0)"
    by (cases "shap_values_from_X lib ?s1 X h t")
  from shap_values_rebuilt [OF prep False, of h t] build call run have s': "s' = s0"
    by simp
  have stored: "same_setup s ?s1" "cached_inputs ?s1 a b c" "cache_foreground_X ?s1 = Some X"
    "foreground_changed ?s1" "explainers ?s1 = explainers s" "target_dim ?s1 = target_dim s"
    "rse_model ?s1 = rse_model s"
    by (simp_all add: store_inputs_def same_setup_def cached_inputs_def)
  from from_X_setup [OF run] stored have "same_setup s s0" "cached_inputs s0 a b c"
    "cache_foreground_X s0 = Some X"
    by (auto simp: same_setup_def cached_inputs_def)
  moreover have "cache_explainers s0 = Some (explain lib ex X)"
    if "explainers s = Single_Engine ex" "1 < target_dim s \<or> 1 < output_chunk_length (rse_model s)" for ex
    using from_X_cache [OF run, of ex] that stored by simp
  ultimately show ?thesis using s' by blast
next
  case True
  from coherent_cached [OF coh True] build
  have X: "cache_foreground_X s = Some X"
    and ce: "\<And>ex. explainers s = Single_Engine ex \<Longrightarrow>
               1 < target_dim s \<or> 1 < output_chunk_length (rse_model s) \<Longrightarrow>
               cache_explainers s = Some (explain lib ex X)"
    by auto
  let ?s1 = "s\<lparr>foreground_changed := False\<rparr>"
  obtain r0 s0 where run: "shap_values_from_X lib ?s1 X h t = (r0, s0)"
    by (cases "shap_values_from_X lib ?s1 X h t")
  from shap_values_cached [OF prep True X, of h t] call run have s': "s' = s0"
    by simp
  from from_X_setup [OF run] True X have "same_setup s s0" "cached_inputs s0 a b c"
    "cache_foreground_X s0 = Some X"
    by (auto simp: same_setup_def cached_inputs_def)
  moreover have "cache_explainers s0 = Some (explain lib ex X)"
    if "explainers s = Single_Engine ex" "1 < target_dim s \<or> 1 < output_chunk_length (rse_model s)" for ex
    using from_X_cache [OF run, of ex] that ce [OF that] by simp
  ultimately show ?thesis using s' by blast
qed

lemma same_setup_refl: "same_setup s s"
  by (simp add: same_setup_def)

lemma same_setup_trans: "same_setup s s' \<Longrightarrow> same_setup s' s'' \<Longrightarrow> same_setup s s''"
  by (simp add: same_setup_def)

lemma call_keeps:
  assumes coh: "cache_coherent lib s" and call: "shap_values lib s fs pc fc h t = (r, s', w)"
  shows "same_setup s s' \<and> cache_coherent lib s'"
proof (cases "prepared lib fs pc fc")
  case (Inl failure)
  then obtain e logged where "prepared lib fs pc fc = Inl (e, logged)" by (cases failure) auto
  from shap_values_failed [OF this, of s h t] call coh show ?thesis
    by (simp add: same_setup_refl)
next
  case (Inr ready)
  then obtain a b c logged where prep: "prepared lib fs pc fc = Inr (a, b, c, logged)"
    by (cases ready) auto
  show ?thesis
  proof (cases "create_RegressionModel_shap_X (lags (rse_model s)) (Single a (Some b) (Some c)) None")
    case (Inl e)
    from call_blocked [OF prep coh Inl, of h t] call coh show ?thesis
      by (simp add: same_setup_refl)
  next
    case (Inr X)
    from call_settles [OF prep coh Inr call]
    have kept: "same_setup s s'" and cached: "cached_inputs s' a b c"
      and X: "cache_foreground_X s' = Some X"
      and ce: "\<And>ex. explainers s = Single_Engine ex \<Longrightarrow>
                 1 < target_dim s \<or> 1 < output_chunk_length (rse_model s) \<Longrightarrow>
                 cache_explainers s' = Some (explain lib ex X)"
      by auto
    have "cache_coherent lib s'"
      using kept cached X Inr ce
      by (auto simp: cache_coherent_def cached_inputs_def same_setup_def split: explainers.splits)
    then show ?thesis using kept by simp
  qed
qed

lemma constructed_fresh:
  assumes "RegressionShapExplainers_init m background nb = Inr s"
  shows "cache_foreground_series s = None \<and> cache_foreground_past_covariates s = None
         \<and> cache_foreground_future_covariates s = None \<and> cache_foreground_X s = None
         \<and> cache_explainers s = None \<and> foreground_changed s"
  using assms
  by (auto simp: RegressionShapExplainers_init_def Let_def split: sum.splits series_input.splits)

lemma reached_keeps:
  assumes "reached lib constructed s" and "cache_coherent lib constructed"
  shows "same_setup constructed s \<and> cache_coherent lib s"
  using assms
proof (induction rule: reached.induct)
  case start
  then show ?case by (simp add: same_setup_refl)
next
  case (call s fs pc fc horizon target_name r s' logged)
  then have "same_setup constructed s" "cache_coherent lib s" by simp_all
  with call_keeps [OF _ call.hyps(2)] show ?case
    by (blast intro: same_setup_trans)
qed


text \<open>
  The cache taken alone, for library functions of any behaviour: on an explainer that has
  only seen calls of \<open>shap_values\<close> since it was constructed, a call with the inputs of
  the call before gives what the newly constructed explainer gives on these inputs; and
  if the call before returned a result, the matrix is not rebuilt: \<open>foreground_changed\<close>
  is cleared and the stored matrix is the one of the call before.
\<close>

lemma repeated_call_reuses_cache:
  assumes built: "RegressionShapExplainers_init m background nb = Inr constructed"
    and hist: "reached lib constructed s0"
    and first: "shap_values lib s0 fs pc fc h1 t1 = (r1, s1, w1)"
    and second: "shap_values lib s1 fs pc fc h2 t2 = (r2, s2, w2)"
  shows "r2 = fst (shap_values lib constructed fs pc fc h2 t2)
       \<and> (case r1 of
             Inl e \<Rightarrow> True
           | Inr v \<Rightarrow> \<not> foreground_changed s2 \<and> cache_foreground_X s1 \<noteq> None
                      \<and> cache_foreground_X s2 = cache_foreground_X s1)"
proof -
  note fresh = constructed_fresh [OF built]
  have coh_c: "cache_coherent lib constructed"
    using fresh by (simp add: cache_coherent_def)
  from reached_keeps [OF hist coh_c]
  have setup0: "same_setup constructed s0" and coh0: "cache_coherent lib s0" by simp_all
  from call_keeps [OF coh0 first]
  have setup1: "same_setup s0 s1" and coh1: "cache_coherent lib s1" by simp_all
  show ?thesis
  proof (cases "prepared lib fs pc fc")
    case (Inl failure)
    then obtain e logged where prep: "prepared lib fs pc fc = Inl (e, logged)"
      by (cases failure) auto
    from shap_values_failed [OF prep, of s0 h1 t1] first have "r1 = Inl e" by simp
    moreover from shap_values_failed [OF prep, of s1 h2 t2] second have "r2 = Inl e" by simp
    moreover from shap_values_failed [OF prep, of constructed h2 t2]
    have "fst (shap_values lib constructed fs pc fc h2 t2) = Inl e" by simp
    ultimately show ?thesis by simp
  next
    case (Inr ready)
    then obtain a b c logged where prep: "prepared lib fs pc fc = Inr (a, b, c, logged)"
      by (cases ready) auto
    have models: "rse_model s0 = rse_model constructed" "rse_model s1 = rse_model constructed"
      using setup0 setup1 by (simp_all add: same_setup_def)
    have not_cached: "\<not> cached_inputs constructed a b c"
      using fresh by (simp add: cached_inputs_def)
    show ?thesis
    proof (cases "create_RegressionModel_shap_X (lags (rse_model constructed))
                    (Single a (Some b) (Some c)) None")
      case (Inl e)
      from call_blocked [OF prep coh0, of e h1 t1] Inl first models
      have "r1 = Inl e" by simp
      moreover from call_blocked [OF prep coh1, of e h2 t2] Inl second models
      have "r2 = Inl e" by simp
      moreover from shap_values_rebuilt [OF prep not_cached, of h2 t2] Inl
      have "fst (shap_values lib constructed fs pc fc h2 t2) = Inl e" by simp
      ultimately show ?thesis by simp
    next
      case (Inr X)
      have build0: "create_RegressionModel_shap_X (lags (rse_model s0))
                      (Single a (Some b) (Some c)) None = Inr X"
        using Inr models by simp
      from call_settles [OF prep coh0 build0 first]
      have cached1: "cached_inputs s1 a b c" and X1: "cache_foreground_X s1 = Some X"
        and ce1: "\<And>ex. explainers s0 = Single_Engine ex \<Longrightarrow>
                    1 < target_dim s0 \<or> 1 < output_chunk_length (rse_model s0) \<Longrightarrow>
                    cache_explainers s1 = Some (explain lib ex X)"
        by auto
      let ?again = "s1\<lparr>foreground_changed := False\<rparr>"
      let ?anew = "store_inputs constructed a b c X"
      from shap_values_cached [OF prep cached1 X1, of h2 t2] second
      have r2: "r2 = fst (shap_values_from_X lib ?again X h2 t2)"
        and s2: "s2 = snd (shap_values_from_X lib ?again X h2 t2)"
        by simp_all
      from shap_values_rebuilt [OF prep not_cached, of h2 t2] Inr
      have anew: "fst (shap_values lib constructed fs pc fc h2 t2)
                    = fst (shap_values_from_X lib ?anew X h2 t2)"
        by simp
      have same: "same_setup ?again ?anew"
        using setup0 setup1 by (simp add: same_setup_def store_inputs_def)
      have "fst (shap_values_from_X lib ?again X h2 t2) = fst (shap_values_from_X lib ?anew X h2 t2)"
      proof (rule from_X_result [OF same])
        fix ex
        assume "explainers ?again = Single_Engine ex"
          and "1 < target_dim ?again \<or> 1 < output_chunk_length (rse_model ?again)"
        then have "explainers s0 = Single_Engine ex"
          and "1 < target_dim s0 \<or> 1 < output_chunk_length (rse_model s0)"
          using setup1 by (simp_all add: same_setup_def)
        from ce1 [OF this]
        show "(if foreground_changed ?again then Some (explain lib ex X) else cache_explainers ?again)
              = (if foreground_changed ?anew then Some (explain lib ex X) else cache_explainers ?anew)"
          by (simp add: store_inputs_def)
      qed
      then have part1: "r2 = fst (shap_values lib constructed fs pc fc h2 t2)"
        using r2 anew by simp
      obtain r0 s0' where run: "shap_values_from_X lib ?again X h2 t2 = (r0, s0')"
        by (cases "shap_values_from_X lib ?again X h2 t2")
      from from_X_setup [OF run] s2 run X1
      have "\<not> foreground_changed s2" "cache_foreground_X s2 = cache_foreground_X s1"
        by simp_all
      with part1 X1 show ?thesis by (simp split: sum.splits)
    qed
  qed
qed



section \<open>What \<open>shap_values\<close> does with its inputs\<close>

text \<open>
  No call of \<open>shap_values\<close> returns a result. With a series of two or more time steps the
  test of the time indexes raises, whatever the library functions are: the covariate is
  \<open>None\<close>, or the indexes differ in length, or the truth value of the element-wise
  comparison is asked for. With a series of one step or none the library function for the
  common period raises: the latest start is not before the earliest end.
\<close>

lemma two_or_more:
  "2 \<le> length xs \<Longrightarrow> \<exists>x y rest. xs = x # y # rest"
  by (cases xs; cases "tl xs") auto

lemma index_test_of_several_steps:
  assumes "2 \<le> length (time_index fs)"
  shows "\<exists>e. share_time_index fs pc fc = Inl e"
proof (cases pc)
  case None
  then show ?thesis by (simp add: share_time_index_def)
next
  case (Some p)
  show ?thesis
  proof (cases "length (time_index fs) = length (time_index p)")
    case False
    then show ?thesis using Some by (simp add: share_time_index_def index_eq_def)
  next
    case True
    from two_or_more [OF assms] obtain x y xs where fs: "time_index fs = x # y # xs" by blast
    from assms True have "2 \<le> length (time_index p)" by simp
    from two_or_more [OF this] obtain u v us where p: "time_index p = u # v # us" by blast
    show ?thesis using Some True
      by (simp add: share_time_index_def index_eq_def array_truth_def fs p)
  qed
qed

lemma two_or_more_steps_never_return:
  assumes "2 \<le> length (time_index fs)"
  shows "\<exists>e. shap_values lib s fs pc fc horizon target_name = (Inl e, s, [])"
proof -
  from index_test_of_several_steps [OF assms] obtain e where "share_time_index fs pc fc = Inl e"
    by blast
  then show ?thesis by (simp add: shap_values_def)
qed

lemma fold_max_least: "x \<le> fold max xs (x :: int)"
proof (induction xs arbitrary: x)
  case Nil
  then show ?case by simp
next
  case (Cons a xs)
  have "max a x \<le> fold max xs (max a x)" by (rule Cons.IH)
  then show ?case by simp
qed

lemma fold_min_most: "fold min xs (x :: int) \<le> x"
proof (induction xs arbitrary: x)
  case Nil
  then show ?case by simp
next
  case (Cons a xs)
  have "fold min xs (min a x) \<le> min a x" by (rule Cons.IH)
  then show ?case by simp
qed

lemma no_overlap_of_one_step:
  assumes "length (time_index fs) \<le> 1"
  shows "\<exists>e. overlapping_period (Some fs # rest) = Inl e"
proof (cases "time_index fs")
  case Nil
  then show ?thesis by (simp add: overlapping_period_def start_time_def)
next
  case (Cons t ts)
  with assms have one: "time_index fs = [t]" by simp
  show ?thesis
  proof (cases "mapM start_time rest")
    case (Inl e)
    then show ?thesis using one by (simp add: overlapping_period_def start_time_def)
  next
    case (Inr starts)
    have "fold min (map (\<lambda>x. last (time_index x)) (map the rest)) t \<le> t"
      by (rule fold_min_most)
    also have "t \<le> fold max starts t" by (rule fold_max_least)
    finally show ?thesis using Inr one
      by (simp add: overlapping_period_def start_time_def Let_def)
  qed
qed

lemma shap_values_never_returns:
  "\<exists>e logged. shap_values example_lib s fs pc fc horizon target_name = (Inl e, s, logged)"
proof (cases "2 \<le> length (time_index fs)")
  case True
  from two_or_more_steps_never_return [OF this] show ?thesis by blast
next
  case False
  then have "length (time_index fs) \<le> 1" by simp
  from no_overlap_of_one_step [OF this] obtain e
    where "overlapping_period [Some fs, pc, fc] = Inl e" by blast
  then show ?thesis
    by (auto simp: shap_values_def example_lib_def split: sum.splits)
qed

lemma shap_values_without_past_covariates:
  "shap_values lib s fs None fc horizon target_name
     = (Inl (AttributeError ''NoneType object has no attribute time_index''), s, [])"
  by (simp add: shap_values_def share_time_index_def)

lemma explain_without_past_covariates:
  assumes "target_names se \<noteq> []" and "0 < n se"
  shows "ShapExplainer_shap_values lib se fs None fc None None
           = (Inl (AttributeError ''NoneType object has no attribute time_index''), se, [])"
proof -
  obtain t ts where names: "target_names se = t # ts"
    using assms(1) by (cases "target_names se") auto
  have hs: "map int [0..<n se] = 0 # map int [Suc 0..<n se]"
    using assms(2) by (simp add: upt_conv_Cons)
  show ?thesis
    by (simp add: ShapExplainer_shap_values_def names hs shap_values_without_past_covariates)
qed

text \<open>
  Claim C4. With the covariates left as \<open>None\<close>, for a model that has target lags only,
  and horizons and target names unspecified, the explain operation raises at the test of
  the time indexes (\<open>None\<close> has no \<open>time_index\<close>) and returns no mapping.
\<close>

theorem explain_without_covariates_at_failing_input:
  "ShapExplainer_init (RegressionModel single_model) (Single one_target None None)
     = Inr single_shap_explainer
   \<and> ShapExplainer_shap_values example_lib single_shap_explainer one_target None None None None
      = (Inl (AttributeError ''NoneType object has no attribute time_index''),
         single_shap_explainer, [])"
proof -
  have built: "ShapExplainer_init (RegressionModel single_model) (Single one_target None None)
                 = Inr single_shap_explainer"
    by code_simp
  have "target_names single_shap_explainer \<noteq> []" "0 < n single_shap_explainer"
    by code_simp+
  from explain_without_past_covariates [OF this] built show ?thesis by simp
qed

text \<open>
  Claim C8. A series on the time steps 0, 1, 2 with a past covariate on 1, 2, 3 and a
  future covariate on 0, 1, 2: the inputs do not share one time index, and the call
  raises in the test itself (the truth value of the element-wise comparison of two indexes
  of three steps), logs no warning and leaves the explainer as it was.
\<close>

theorem differing_time_index_at_failing_input:
  "shap_values example_lib single_explainers one_target (Some later_cov) (Some background_cov)
       (Some 0) (Some ''y'')
     = (Inl (ValueError ''The truth value of an array with more than one element is ambiguous''),
        single_explainers, [])"
  by code_simp


theorem differing_time_index_at_failing_input_witness:
  "fst (shap_values example_lib single_explainers one_target (Some later_cov)
          (Some background_cov) (Some 0) (Some ''y''))
     = Inl (ValueError ''The truth value of an array with more than one element is ambiguous'')
   \<and> snd (snd (shap_values example_lib single_explainers one_target (Some later_cov)
                 (Some background_cov) (Some 0) (Some ''y''))) = []"
  using differing_time_index_at_failing_input by simp

text \<open>
  Claim C3. \<open>shap_values\<close> checks neither the horizons nor the target names. For a model
  with one target \<open>y\<close> and forecast length 1, horizon 5 with target name \<open>absent\<close>
  raises the \<open>AttributeError\<close> of the missing covariates when the covariates are \<open>None\<close>
  and, with covariates on the time steps of the series, the \<open>ValueError\<close> of the test
  of the time indexes, which horizon 0 with target \<open>y\<close> raises as well. \<open>summary_plot\<close>
  raises the validation error for the horizon and for the target name.
\<close>

theorem unchecked_horizon_and_target_at_failing_input:
  "ShapExplainer_init (RegressionModel single_model) (Single one_target None None)
     = Inr single_shap_explainer
   \<and> n single_shap_explainer = 1 \<and> target_names single_shap_explainer = [''y'']
   \<and> fst (ShapExplainer_shap_values lib single_shap_explainer one_target None None
             (Some [5]) (Some [''absent'']))
      = Inl (AttributeError ''NoneType object has no attribute time_index'')
   \<and> fst (ShapExplainer_shap_values lib single_shap_explainer one_target
             (Some background_cov) (Some background_cov) (Some [5]) (Some [''absent'']))
      = Inl (ValueError ''The truth value of an array with more than one element is ambiguous'')
   \<and> fst (ShapExplainer_shap_values lib single_shap_explainer one_target
             (Some background_cov) (Some background_cov) (Some [0]) (Some [''y'']))
      = Inl (ValueError ''The truth value of an array with more than one element is ambiguous'')
   \<and> fst (summary_plot lib single_shap_explainer None (Some [5]) None)
      = Inl (ValueError horizons_error)
   \<and> fst (summary_plot lib single_shap_explainer (Some [''absent'']) None None)
      = Inl (ValueError target_names_error)"
proof -
  have built: "ShapExplainer_init (RegressionModel single_model) (Single one_target None None)
                 = Inr single_shap_explainer"
    by code_simp
  have bounds: "n single_shap_explainer = 1" "target_names single_shap_explainer = [''y'']"
    by code_simp+
  have test: "share_time_index one_target (Some background_cov) (Some background_cov)
                = Inl (ValueError ''The truth value of an array with more than one element is ambiguous'')"
    by code_simp
  have call: "shap_values lib s one_target (Some background_cov) (Some background_cov) h t
                = (Inl (ValueError ''The truth value of an array with more than one element is ambiguous''), s, [])"
    for s h t
    by (simp add: shap_values_def test)
  have none: "fst (ShapExplainer_shap_values lib single_shap_explainer one_target None None
                     (Some [5]) (Some [''absent'']))
                = Inl (AttributeError ''NoneType object has no attribute time_index'')"
    by (simp add: ShapExplainer_shap_values_def shap_values_without_past_covariates)
  have far: "fst (ShapExplainer_shap_values lib single_shap_explainer one_target
                    (Some background_cov) (Some background_cov) (Some [5]) (Some [''absent'']))
      = Inl (ValueError ''The truth value of an array with more than one element is ambiguous'')"
    by (simp add: ShapExplainer_shap_values_def call)
  have valid: "fst (ShapExplainer_shap_values lib single_shap_explainer one_target
                    (Some background_cov) (Some background_cov) (Some [0]) (Some [''y'']))
      = Inl (ValueError ''The truth value of an array with more than one element is ambiguous'')"
    by (simp add: ShapExplainer_shap_values_def call)
  have plot_h: "fst (summary_plot lib single_shap_explainer None (Some [5]) None)
                  = Inl (ValueError horizons_error)"
    by (simp add: summary_plot_def py_max_def bounds)
  have plot_t: "fst (summary_plot lib single_shap_explainer (Some [''absent'']) None None)
                  = Inl (ValueError target_names_error)"
    by (simp add: summary_plot_def bounds)
  show ?thesis
    using built bounds none far valid plot_h plot_t by simp
qed

lemma shap_values_ignores_bounds:
  "fst (ShapExplainer_shap_values lib (se\<lparr>n := k, target_names := names\<rparr>) fs pc fc
          (Some hs) (Some ts))
     = fst (ShapExplainer_shap_values lib se fs pc fc (Some hs) (Some ts))"
  by (simp add: ShapExplainer_shap_values_def split: prod.splits)

lemma summary_plot_rejects_unknown_target:
  "list_ex (\<lambda>t. t \<notin> set (target_names se)) ts
     \<Longrightarrow> summary_plot lib se (Some ts) horizons nb = (Inl (ValueError target_names_error), se)"
  by (simp add: summary_plot_def)

lemma summary_plot_rejects_far_horizon:
  assumes "case tnames of None \<Rightarrow> True | Some ts \<Rightarrow> list_all (\<lambda>t. t \<in> set (target_names se)) ts"
    and "h \<in> set hs" and "int (n se) \<le> h"
  shows "summary_plot lib se tnames (Some hs) nb = (Inl (ValueError horizons_error), se)"
proof -
  have known: "\<not> (case tnames of None \<Rightarrow> False
                  | Some ts \<Rightarrow> list_ex (\<lambda>t. t \<notin> set (target_names se)) ts)"
    using assms(1) by (auto simp: list_all_iff list_ex_iff split: option.splits)
  have fold_max: "h \<in> set xs \<or> h \<le> x \<Longrightarrow> h \<le> fold max xs x" for xs and x :: int
  proof (induction xs arbitrary: x)
    case Nil
    then show ?case by simp
  next
    case (Cons a xs)
    then have "h \<in> set xs \<or> h \<le> max a x" by auto
    from Cons.IH [OF this] show ?case by simp
  qed
  obtain x rest where hs: "hs = x # rest" using assms(2) by (cases hs) auto
  have "h \<le> fold max rest x" using assms(2) hs fold_max [of rest x] by auto
  then have "int (n se) - 1 < fold max rest x" using assms(3) by simp
  then show ?thesis using known
    by (simp add: summary_plot_def py_max_def hs)
qed

end
